theory Spec2Isabelle
  imports Main "HOL-Library.AList"
begin

section \<open>Values, exceptions and type annotations\<close>

text \<open>
  The interceptor of \<^verbatim>\<open>pico_pydantic/interceptor.py\<close> works on Python values it
  never looks into: it binds them to parameter names, hands some of them to the
  validation engine and puts the results back. A value is therefore a small tree;
  dictionaries keep their insertion order, so they are association lists.
\<close>

datatype pyval =
    PyNone
  | PyBool bool
  | PyInt int
  | PyStr string
  | PyTuple "pyval list"
  | PyList "pyval list"
  | PyDict "(string \<times> pyval) list"
  | PyObject string "(string \<times> pyval) list"

text \<open>
  Every \<^verbatim>\<open>raise\<close> is a value, and every exception here is a subclass of
  \<^verbatim>\<open>Exception\<close>. \<open>TypeError\<close> is what \<^verbatim>\<open>Signature.bind\<close>,
  \<^verbatim>\<open>issubclass\<close> and iteration raise; \<open>ValidationError\<close> is the validation
  engine's diagnostic; \<open>ValidationFailedError\<close> is the class of
  \<^verbatim>\<open>decorators.py\<close> with its two attributes \<^verbatim>\<open>method_name\<close> and
  \<^verbatim>\<open>pydantic_error\<close> (which is also the cause set by \<^verbatim>\<open>raise ... from e\<close>).
\<close>

datatype type_error =
    TooManyPositional
  | MultipleValues string
  | MissingRequired string
  | PositionalOnlyAsKeyword string
  | UnexpectedKeyword string
  | NotAClass
  | NotIterable

datatype exn =
    TypeError type_error
  | ValidationError string
  | ValidationFailedError (method_name: string) (pydantic_error: exn)
  | KeyError string
  | OtherException string

text \<open>
  \<^verbatim>\<open>_requires_pydantic_validation\<close> inspects an annotation object through four
  operations only, so an annotation is what these operations observe on it:
  \<^item> \<open>ann_isclass\<close>: the result of \<^verbatim>\<open>inspect.isclass(annotation)\<close>;
  \<^item> \<open>ann_issubclass\<close>: the result of \<^verbatim>\<open>issubclass(annotation, BaseModel)\<close>,
    which raises \<open>TypeError\<close> on an object that is not a class;
  \<^item> \<open>ann_args\<close>: \<open>None\<close> when \<^verbatim>\<open>hasattr(annotation, "__args__")\<close> is false,
    \<open>Some (Inr xs)\<close> when \<^verbatim>\<open>__args__\<close> is the tuple \<open>xs\<close>, \<open>Some (Inl e)\<close> when
    iterating \<^verbatim>\<open>__args__\<close> raises \<open>e\<close>.
  \<open>ann_label\<close> is the printed name and has no effect.
\<close>

datatype annotation = Annotation
  (ann_label: string)
  (ann_isclass: bool)
  (ann_issubclass: "exn + bool")
  (ann_args: "(exn + annotation list) option")

text \<open>The usual shapes: a model class, any other class, a \<^verbatim>\<open>typing\<close> alias.\<close>

definition model_class :: "string \<Rightarrow> annotation" where
  "model_class n = Annotation n True (Inr True) None"

definition plain_class :: "string \<Rightarrow> annotation" where
  "plain_class n = Annotation n True (Inr False) None"

definition generic_alias :: "string \<Rightarrow> annotation list \<Rightarrow> annotation" where
  "generic_alias n xs = Annotation n False (Inl (TypeError NotAClass)) (Some (Inr xs))"

section \<open>The type requirement analyzer\<close>

text \<open>
  \<^verbatim>\<open>
  def _requires_pydantic_validation(self, annotation):
      try:
          if inspect.isclass(annotation) and issubclass(annotation, BaseModel):
              return True
          if hasattr(annotation, "__args__"):
              return any(self._requires_pydantic_validation(arg) for arg in annotation.__args__)
          return False
      except Exception:
          return False
  \<close>
  \<open>requires_try\<close> is the body of the \<^verbatim>\<open>try\<close>, \<open>requires_pydantic_validation\<close> the
  whole function with its \<^verbatim>\<open>except\<close> clause, \<open>any_requires\<close> the call of
  \<^verbatim>\<open>any\<close> on the generator: it stops at the first true element and lets an
  exception of an element through. All three return an outcome, a boolean or an
  exception, so that "never raises" is a property to prove and not a matter of
  the type.
\<close>

function requires_try :: "annotation \<Rightarrow> exn + bool"
  and requires_pydantic_validation :: "annotation \<Rightarrow> exn + bool"
  and any_requires :: "annotation list \<Rightarrow> exn + bool"
where
  "requires_try a =
     (case (if ann_isclass a then ann_issubclass a else Inr False) of
        Inl e \<Rightarrow> Inl e
      | Inr True \<Rightarrow> Inr True
      | Inr False \<Rightarrow>
          (case ann_args a of
             None \<Rightarrow> Inr False
           | Some (Inl e) \<Rightarrow> Inl e
           | Some (Inr xs) \<Rightarrow> any_requires xs))"
| "requires_pydantic_validation a =
     (case requires_try a of Inl e \<Rightarrow> Inr False | Inr b \<Rightarrow> Inr b)"
| "any_requires [] = Inr False"
| "any_requires (x # xs) =
     (case requires_pydantic_validation x of
        Inl e \<Rightarrow> Inl e
      | Inr True \<Rightarrow> Inr True
      | Inr False \<Rightarrow> any_requires xs)"
  by pat_completeness auto
termination
proof (relation "measure (\<lambda>x. case x of
          Inl a \<Rightarrow> 2 * size a
        | Inr (Inl a) \<Rightarrow> 2 * size a + 1
        | Inr (Inr xs) \<Rightarrow> 2 * size_list size xs)", goal_cases)
  case 1
  show ?case by simp
next
  case (2 a b xs)
  then show ?case by (cases a) auto
next
  case 3
  show ?case by simp
next
  case 4
  show ?case by simp
next
  case 5
  show ?case by simp
qed

declare requires_try.simps [simp del]
declare requires_pydantic_validation.simps [simp del]

section \<open>Signatures and the standard library's binder\<close>

text \<open>
  \<^verbatim>\<open>inspect.signature(func)\<close> is an ordered list of parameters. A parameter has a
  name, a kind, a default and an annotation; \<open>None\<close> stands for
  \<^verbatim>\<open>inspect.Parameter.empty\<close> in the last two.
\<close>

datatype kind =
    POSITIONAL_ONLY
  | POSITIONAL_OR_KEYWORD
  | VAR_POSITIONAL
  | KEYWORD_ONLY
  | VAR_KEYWORD

record parameter =
  param_name :: string
  param_kind :: kind
  param_default :: "pyval option"
  param_annotation :: "annotation option"

type_synonym signature = "parameter list"
type_synonym arguments = "(string \<times> pyval) list"

text \<open>
  \<^verbatim>\<open>Signature.bind(*args, **kwargs)\<close> of the standard library (CPython 3.9 to 3.11),
  in its two phases. The first loop walks the positional arguments and the
  parameters together; it returns the arguments bound so far and the parameters
  left for the second phase (\<^verbatim>\<open>parameters_ex\<close> followed by the rest of the
  iterator).
\<close>

fun bind_positional ::
  "signature \<Rightarrow> pyval list \<Rightarrow> arguments \<Rightarrow> arguments \<Rightarrow> exn + (arguments \<times> signature)"
where
  "bind_positional [] [] kw acc = Inr (acc, [])"
| "bind_positional (p # ps) [] kw acc =
     (if param_kind p = VAR_POSITIONAL then Inr (acc, ps)
      else if map_of kw (param_name p) \<noteq> None then
        (if param_kind p = POSITIONAL_ONLY
         then Inl (TypeError (PositionalOnlyAsKeyword (param_name p)))
         else Inr (acc, p # ps))
      else if param_kind p = VAR_KEYWORD \<or> param_default p \<noteq> None then Inr (acc, p # ps)
      else Inl (TypeError (MissingRequired (param_name p))))"
| "bind_positional [] (v # vs) kw acc = Inl (TypeError TooManyPositional)"
| "bind_positional (p # ps) (v # vs) kw acc =
     (if param_kind p = VAR_KEYWORD \<or> param_kind p = KEYWORD_ONLY
      then Inl (TypeError TooManyPositional)
      else if param_kind p = VAR_POSITIONAL
      then Inr (AList.update (param_name p) (PyTuple (v # vs)) acc, ps)
      else if map_of kw (param_name p) \<noteq> None \<and> param_kind p \<noteq> POSITIONAL_ONLY
      then Inl (TypeError (MultipleValues (param_name p)))
      else bind_positional ps vs kw (AList.update (param_name p) v acc))"

text \<open>
  The second loop takes the remaining parameters from the keyword arguments,
  popping each one it uses, and remembers a \<^verbatim>\<open>**kwargs\<close> parameter. It returns
  the arguments, the keyword arguments nobody claimed and that parameter.
\<close>

fun bind_keywords ::
  "signature \<Rightarrow> arguments \<Rightarrow> arguments \<Rightarrow> parameter option
     \<Rightarrow> exn + (arguments \<times> arguments \<times> parameter option)"
where
  "bind_keywords [] kw acc kwargs_param = Inr (acc, kw, kwargs_param)"
| "bind_keywords (p # ps) kw acc kwargs_param =
     (if param_kind p = VAR_KEYWORD then bind_keywords ps kw acc (Some p)
      else if param_kind p = VAR_POSITIONAL then bind_keywords ps kw acc kwargs_param
      else
        (case map_of kw (param_name p) of
           None \<Rightarrow>
             if param_default p = None
             then Inl (TypeError (MissingRequired (param_name p)))
             else bind_keywords ps kw acc kwargs_param
         | Some v \<Rightarrow>
             if param_kind p = POSITIONAL_ONLY
             then Inl (TypeError (PositionalOnlyAsKeyword (param_name p)))
             else bind_keywords ps (AList.delete (param_name p) kw)
                    (AList.update (param_name p) v acc) kwargs_param))"

definition bind :: "signature \<Rightarrow> pyval list \<Rightarrow> arguments \<Rightarrow> exn + arguments" where
  "bind sig args kwargs =
     (case bind_positional sig args kwargs [] of
        Inl e \<Rightarrow> Inl e
      | Inr (acc, rest) \<Rightarrow>
          (case bind_keywords rest kwargs acc None of
             Inl e \<Rightarrow> Inl e
           | Inr (acc', left, kwargs_param) \<Rightarrow>
               if left \<noteq> [] then
                 (case kwargs_param of
                    Some p \<Rightarrow> Inr (AList.update (param_name p) (PyDict left) acc')
                  | None \<Rightarrow> Inl (TypeError (UnexpectedKeyword (fst (hd left)))))
               else Inr acc'))"

text \<open>\<^verbatim>\<open>BoundArguments.apply_defaults\<close>: the pairs are collected in declared order
  and turned into a dictionary.\<close>

fun default_pairs :: "signature \<Rightarrow> arguments \<Rightarrow> (string \<times> pyval) list" where
  "default_pairs [] arguments = []"
| "default_pairs (p # ps) arguments =
     (case map_of arguments (param_name p) of
        Some v \<Rightarrow> (param_name p, v) # default_pairs ps arguments
      | None \<Rightarrow>
          (case param_default p of
             Some d \<Rightarrow> (param_name p, d) # default_pairs ps arguments
           | None \<Rightarrow>
               if param_kind p = VAR_POSITIONAL
               then (param_name p, PyTuple []) # default_pairs ps arguments
               else if param_kind p = VAR_KEYWORD
               then (param_name p, PyDict []) # default_pairs ps arguments
               else default_pairs ps arguments))"

definition dict_of :: "(string \<times> pyval) list \<Rightarrow> arguments" where
  "dict_of pairs = foldl (\<lambda>d (k, v). AList.update k v d) [] pairs"

definition apply_defaults :: "signature \<Rightarrow> arguments \<Rightarrow> arguments" where
  "apply_defaults sig arguments = dict_of (default_pairs sig arguments)"

text \<open>
  The properties \<^verbatim>\<open>BoundArguments.args\<close> and \<^verbatim>\<open>BoundArguments.kwargs\<close>.
  \<^verbatim>\<open>args.extend(arg)\<close> iterates the value bound to \<^verbatim>\<open>*args\<close> and
  \<^verbatim>\<open>kwargs.update(arg)\<close> merges the value bound to \<^verbatim>\<open>**kwargs\<close>. Binding
  puts a tuple and a dictionary there, but the engine may replace them by any
  value, and what iteration and merging do then is decided by the class of that
  value: a model instance, for one, iterates as its (field, value) pairs. The
  two protocols are therefore parameters: \<open>rt_iter v\<close> is the outcome of
  iterating an object \<open>v\<close>, and \<open>rt_update kwargs v\<close> is the keyword dictionary
  after \<^verbatim>\<open>kwargs.update(v)\<close> for a value \<open>v\<close> that is no dictionary, or the
  exception raised. Keyword dictionaries have string keys.
\<close>

record runtime =
  rt_iter :: "pyval \<Rightarrow> exn + pyval list"
  rt_update :: "arguments \<Rightarrow> pyval \<Rightarrow> exn + arguments"

fun iterate :: "runtime \<Rightarrow> pyval \<Rightarrow> exn + pyval list" where
  "iterate rt (PyTuple xs) = Inr xs"
| "iterate rt (PyList xs) = Inr xs"
| "iterate rt (PyDict kvs) = Inr (map (\<lambda>kv. PyStr (fst kv)) kvs)"
| "iterate rt (PyStr s) = Inr (map (\<lambda>c. PyStr [c]) s)"
| "iterate rt (PyObject c fs) = rt_iter rt (PyObject c fs)"
| "iterate rt v = Inl (TypeError NotIterable)"

fun dict_update :: "runtime \<Rightarrow> arguments \<Rightarrow> pyval \<Rightarrow> exn + arguments" where
  "dict_update rt kwargs (PyDict kvs) = Inr (foldl (\<lambda>d (k, v). AList.update k v d) kwargs kvs)"
| "dict_update rt kwargs v = rt_update rt kwargs v"

fun bound_args :: "runtime \<Rightarrow> signature \<Rightarrow> arguments \<Rightarrow> exn + pyval list" where
  "bound_args rt [] arguments = Inr []"
| "bound_args rt (p # ps) arguments =
     (if param_kind p = VAR_KEYWORD \<or> param_kind p = KEYWORD_ONLY then Inr []
      else
        (case map_of arguments (param_name p) of
           None \<Rightarrow> Inr []
         | Some arg \<Rightarrow>
             (case (if param_kind p = VAR_POSITIONAL then iterate rt arg else Inr [arg]) of
                Inl e \<Rightarrow> Inl e
              | Inr here \<Rightarrow>
                  (case bound_args rt ps arguments of
                     Inl e \<Rightarrow> Inl e
                   | Inr later \<Rightarrow> Inr (here @ later)))))"

fun bound_kwargs ::
  "runtime \<Rightarrow> signature \<Rightarrow> arguments \<Rightarrow> bool \<Rightarrow> arguments \<Rightarrow> exn + arguments"
where
  "bound_kwargs rt [] arguments kwargs_started kwargs = Inr kwargs"
| "bound_kwargs rt (p # ps) arguments kwargs_started kwargs =
     (if \<not> kwargs_started \<and> param_kind p \<noteq> VAR_KEYWORD \<and> param_kind p \<noteq> KEYWORD_ONLY
      then
        (if map_of arguments (param_name p) = None
         then bound_kwargs rt ps arguments True kwargs
         else bound_kwargs rt ps arguments False kwargs)
      else
        (case map_of arguments (param_name p) of
           None \<Rightarrow> bound_kwargs rt ps arguments True kwargs
         | Some arg \<Rightarrow>
             if param_kind p = VAR_KEYWORD then
               (case dict_update rt kwargs arg of
                  Inl e \<Rightarrow> Inl e
                | Inr kwargs' \<Rightarrow> bound_kwargs rt ps arguments True kwargs')
             else bound_kwargs rt ps arguments True
                    (AList.update (param_name p) arg kwargs)))"

section \<open>The interceptor\<close>

text \<open>
  The validation engine is an external collaborator: \<open>eng ann v\<close> is the outcome of
  \<^verbatim>\<open>TypeAdapter(ann).validate_python(v)\<close>, a validated value or an exception.
  The interceptor's observable steps are recorded in a trace: a call of the
  analyzer for a parameter, and a call of the engine for a parameter.
\<close>

type_synonym engine = "annotation \<Rightarrow> pyval \<Rightarrow> exn + pyval"

datatype event =
    Classify string annotation
  | Validate string annotation pyval

fun event_param :: "event \<Rightarrow> string" where
  "event_param (Classify n a) = n"
| "event_param (Validate n a v) = n"

text \<open>\<^verbatim>\<open>sig.parameters[name]\<close>.\<close>

definition lookup_param :: "signature \<Rightarrow> string \<Rightarrow> parameter option" where
  "lookup_param sig n = find (\<lambda>p. param_name p = n) sig"

text \<open>
  The loop of \<^verbatim>\<open>_validate_and_transform\<close> over \<^verbatim>\<open>bound.arguments.items()\<close>:
  \<^verbatim>\<open>
  for name, val in bound.arguments.items():
      param = sig.parameters[name]
      if name in ('self', 'cls') or param.annotation == inspect.Parameter.empty:
          continue
      if self._requires_pydantic_validation(param.annotation):
          adapter = TypeAdapter(param.annotation)
          validated_value = adapter.validate_python(val)
          validated_args_map[name] = validated_value
  \<close>
  The function returns the final \<^verbatim>\<open>validated_args_map\<close>, or the exception that
  ended the loop, and the trace of the steps taken.
\<close>

fun validate_loop ::
  "engine \<Rightarrow> signature \<Rightarrow> (string \<times> pyval) list \<Rightarrow> arguments
     \<Rightarrow> (exn + arguments) \<times> event list"
where
  "validate_loop eng sig [] validated_args_map = (Inr validated_args_map, [])"
| "validate_loop eng sig ((n, val) # items) validated_args_map =
     (case lookup_param sig n of
        None \<Rightarrow> (Inl (KeyError n), [])
      | Some param \<Rightarrow>
          (if n = ''self'' \<or> n = ''cls'' then validate_loop eng sig items validated_args_map
           else
             (case param_annotation param of
                None \<Rightarrow> validate_loop eng sig items validated_args_map
              | Some ann \<Rightarrow>
                  (case requires_pydantic_validation ann of
                     Inl e \<Rightarrow> (Inl e, [Classify n ann])
                   | Inr False \<Rightarrow>
                       (case validate_loop eng sig items validated_args_map of
                          (r, tr) \<Rightarrow> (r, Classify n ann # tr))
                   | Inr True \<Rightarrow>
                       (case eng ann val of
                          Inl e \<Rightarrow> (Inl e, [Classify n ann, Validate n ann val])
                        | Inr validated_value \<Rightarrow>
                            (case validate_loop eng sig items
                                    (AList.update n validated_value validated_args_map) of
                               (r, tr) \<Rightarrow>
                                 (r, Classify n ann # Validate n ann val # tr)))))))"

text \<open>
  \<^verbatim>\<open>
  try:
      bound = sig.bind(*args, **kwargs)
  except TypeError:
      bound = sig.bind(*args[1:], **kwargs)
  \<close>
  The slice \<^verbatim>\<open>args[1:]\<close> of an empty tuple is empty, as \<open>tl []\<close> is.
\<close>

definition is_TypeError :: "exn \<Rightarrow> bool" where
  "is_TypeError e = (case e of TypeError t \<Rightarrow> True | _ \<Rightarrow> False)"

definition bind_with_retry :: "signature \<Rightarrow> pyval list \<Rightarrow> arguments \<Rightarrow> exn + arguments" where
  "bind_with_retry sig args kwargs =
     (case bind sig args kwargs of
        Inr bound \<Rightarrow> Inr bound
      | Inl e \<Rightarrow> if is_TypeError e then bind sig (tl args) kwargs else Inl e)"

text \<open>
  The state of \<^verbatim>\<open>bound.arguments\<close> after line 48 of the interceptor: binding,
  defaults, the loop, and \<^verbatim>\<open>bound.arguments.update(validated_args_map)\<close>.
\<close>

definition validated_arguments ::
  "engine \<Rightarrow> signature \<Rightarrow> pyval list \<Rightarrow> arguments \<Rightarrow> (exn + arguments) \<times> event list"
where
  "validated_arguments eng sig args kwargs =
     (case bind_with_retry sig args kwargs of
        Inl e \<Rightarrow> (Inl e, [])
      | Inr bound \<Rightarrow>
          (let arguments = apply_defaults sig bound in
           (case validate_loop eng sig arguments arguments of
              (Inl e, tr) \<Rightarrow> (Inl e, tr)
            | (Inr validated_args_map, tr) \<Rightarrow>
                (Inr (foldl (\<lambda>d (k, v). AList.update k v d) arguments validated_args_map),
                 tr))))"

definition validate_and_transform ::
  "runtime \<Rightarrow> engine \<Rightarrow> signature \<Rightarrow> pyval list \<Rightarrow> arguments
     \<Rightarrow> (exn + (pyval list \<times> arguments)) \<times> event list"
where
  "validate_and_transform rt eng sig args kwargs =
     (case validated_arguments eng sig args kwargs of
        (Inl e, tr) \<Rightarrow> (Inl e, tr)
      | (Inr arguments, tr) \<Rightarrow>
          (case bound_args rt sig arguments of
             Inl e \<Rightarrow> (Inl e, tr)
           | Inr new_args \<Rightarrow>
               (case bound_kwargs rt sig arguments False [] of
                  Inl e \<Rightarrow> (Inl e, tr)
                | Inr new_kwargs \<Rightarrow> (Inr (new_args, new_kwargs), tr))))"

text \<open>
  A method as \<^verbatim>\<open>getattr(ctx.cls, ctx.name, None)\<close> finds it: the truth value of its
  \<^verbatim>\<open>_pico_pydantic_validate_meta\<close> attribute (false when absent) and its
  signature. A class is the list of its methods; the call context is the
  \<^verbatim>\<open>MethodCtx\<close> of the interception framework.
\<close>

record pymethod =
  validate_meta :: bool
  method_signature :: signature

type_synonym pyclass = "(string \<times> pymethod) list"

record method_ctx =
  ctx_cls :: pyclass
  ctx_name :: string
  ctx_args :: "pyval list"
  ctx_kwargs :: arguments

text \<open>
  The continuation returns a value or an awaitable, or raises;
  \<^verbatim>\<open>_call_next_async\<close> awaits the awaitable.
\<close>

datatype call_result = Immediate pyval | Awaitable "exn + pyval"

type_synonym continuation = "method_ctx \<Rightarrow> exn + call_result"

definition call_next_async :: "continuation \<Rightarrow> method_ctx \<Rightarrow> exn + pyval" where
  "call_next_async call_next ctx =
     (case call_next ctx of
        Inl e \<Rightarrow> Inl e
      | Inr (Immediate v) \<Rightarrow> Inr v
      | Inr (Awaitable r) \<Rightarrow> r)"

text \<open>
  What one run of \<^verbatim>\<open>ValidationInterceptor.invoke\<close> does: its outcome, the call
  context as it leaves it, the trace of analyzer and engine calls, and the
  contexts the continuation was called with, in order.
\<close>

record invocation =
  outcome :: "exn + pyval"
  final_ctx :: method_ctx
  trace :: "event list"
  forwarded :: "method_ctx list"

definition invoke ::
  "runtime \<Rightarrow> engine \<Rightarrow> continuation \<Rightarrow> method_ctx \<Rightarrow> invocation"
where
  "invoke rt eng call_next ctx =
     (case map_of (ctx_cls ctx) (ctx_name ctx) of
        None \<Rightarrow>
          \<lparr>outcome = call_next_async call_next ctx, final_ctx = ctx,
           trace = [], forwarded = [ctx]\<rparr>
      | Some original_func \<Rightarrow>
          if \<not> validate_meta original_func then
            \<lparr>outcome = call_next_async call_next ctx, final_ctx = ctx,
             trace = [], forwarded = [ctx]\<rparr>
          else
            (case validate_and_transform rt eng (method_signature original_func)
                    (ctx_args ctx) (ctx_kwargs ctx) of
               (Inl e, tr) \<Rightarrow>
                 (case e of
                    ValidationError d \<Rightarrow>
                      \<lparr>outcome = Inl (ValidationFailedError (ctx_name ctx) e),
                       final_ctx = ctx, trace = tr, forwarded = []\<rparr>
                  | _ \<Rightarrow>
                      \<lparr>outcome = Inl e, final_ctx = ctx, trace = tr, forwarded = []\<rparr>)
             | (Inr (new_args, new_kwargs), tr) \<Rightarrow>
                 (let ctx' = ctx\<lparr>ctx_args := new_args, ctx_kwargs := new_kwargs\<rparr> in
                  \<lparr>outcome = call_next_async call_next ctx', final_ctx = ctx',
                   trace = tr, forwarded = [ctx']\<rparr>)))"

section \<open>The fixtures of the test suite\<close>

text \<open>
  The annotations of \<^verbatim>\<open>tests/test_validation.py\<close>: the model \<^verbatim>\<open>Item\<close>, and
  \<^verbatim>\<open>Optional[Item]\<close>, \<^verbatim>\<open>List[Item]\<close>, \<^verbatim>\<open>Union[Item, int]\<close>, which are
  \<^verbatim>\<open>typing\<close> aliases whose \<^verbatim>\<open>__args__\<close> hold the inner types.
\<close>

definition Item :: annotation where
  "Item = model_class ''Item''"

definition NonPydanticArg :: annotation where
  "NonPydanticArg = plain_class ''NonPydanticArg''"

definition Optional_Item :: annotation where
  "Optional_Item = generic_alias ''Optional[Item]'' [Item, plain_class ''NoneType'']"

definition List_Item :: annotation where
  "List_Item = generic_alias ''List[Item]'' [Item]"

definition Union_Item_int :: annotation where
  "Union_Item_int = generic_alias ''Union[Item, int]'' [Item, plain_class ''int'']"

text \<open>
  An object that \<^verbatim>\<open>inspect.isclass\<close> accepts and on which \<^verbatim>\<open>issubclass\<close> raises
  \<open>TypeError\<close>, with inner type arguments. A builtin alias such as
  \<^verbatim>\<open>list[Item]\<close> is one on CPython 3.9 and 3.10: there
  \<^verbatim>\<open>isinstance(list[Item], type)\<close> holds, and the subclass test of an abstract
  base class raises "issubclass() arg 1 must be a class" because the alias is
  not a class. (From CPython 3.11 on \<^verbatim>\<open>inspect.isclass\<close> rejects the alias, which
  then behaves as \<open>generic_alias\<close>.)
\<close>

definition builtin_alias :: "string \<Rightarrow> annotation list \<Rightarrow> annotation" where
  "builtin_alias n xs = Annotation n True (Inl (TypeError NotAClass)) (Some (Inr xs))"

definition builtin_list_Item :: annotation where
  "builtin_list_Item = builtin_alias ''list[Item]'' [Item]"


text \<open>
  The methods of \<^verbatim>\<open>TestService\<close>, and the static method of
  \<^verbatim>\<open>ComplexService\<close>, whose signature has no receiver parameter.
\<close>

definition positional :: "string \<Rightarrow> annotation option \<Rightarrow> parameter" where
  "positional n ann =
     \<lparr>param_name = n, param_kind = POSITIONAL_OR_KEYWORD, param_default = None,
      param_annotation = ann\<rparr>"

definition simple_method :: pymethod where
  "simple_method =
     \<lparr>validate_meta = True,
      method_signature = [positional ''self'' None, positional ''item'' (Some Item)]\<rparr>"

definition optional_method :: pymethod where
  "optional_method =
     \<lparr>validate_meta = True,
      method_signature =
        [positional ''self'' None,
         (positional ''item'' (Some Optional_Item))\<lparr>param_default := Some PyNone\<rparr>]\<rparr>"

definition mixed_method :: pymethod where
  "mixed_method =
     \<lparr>validate_meta = True,
      method_signature =
        [positional ''self'' None, positional ''item'' (Some Item),
         positional ''other'' (Some NonPydanticArg)]\<rparr>"

definition method_with_defaults :: pymethod where
  "method_with_defaults =
     \<lparr>validate_meta = True,
      method_signature =
        [positional ''self'' None, positional ''item'' (Some Item),
         (positional ''limit'' (Some (plain_class ''int'')))\<lparr>param_default := Some (PyInt 10)\<rparr>]\<rparr>"

definition non_validated :: pymethod where
  "non_validated =
     \<lparr>validate_meta = False,
      method_signature = [positional ''self'' None, positional ''item'' (Some Item)]\<rparr>"

definition static_method_op :: pymethod where
  "static_method_op =
     \<lparr>validate_meta = True, method_signature = [positional ''item'' (Some Item)]\<rparr>"

definition TestService :: pyclass where
  "TestService =
     [(''simple_method'', simple_method), (''optional_method'', optional_method),
      (''mixed_method'', mixed_method), (''method_with_defaults'', method_with_defaults),
      (''non_validated'', non_validated)]"

definition ComplexService :: pyclass where
  "ComplexService = [(''static_method_op'', static_method_op)]"

definition service :: pyval where
  "service = PyObject ''TestService'' []"

definition raw_item :: "int \<Rightarrow> string \<Rightarrow> pyval" where
  "raw_item i s = PyDict [(''id'', PyInt i), (''name'', PyStr s)]"

definition item_instance :: "int \<Rightarrow> string \<Rightarrow> pyval" where
  "item_instance i s = PyObject ''Item'' [(''id'', PyInt i), (''name'', PyStr s)]"

text \<open>
  The validation engine is external and a parameter of every theorem. For the
  examples, a stand-in that does what the tests expect of the engine on
  \<^verbatim>\<open>Item\<close> (\<^verbatim>\<open>id: int = Field(gt=0)\<close>, \<^verbatim>\<open>name: str\<close>): a mapping with a
  positive \<^verbatim>\<open>id\<close> and a \<^verbatim>\<open>name\<close> becomes an instance, an instance is accepted
  as it is, \<^verbatim>\<open>None\<close> is accepted for the optional type, and everything else is
  rejected with a diagnostic naming the field.
\<close>

fun validate_item :: "pyval \<Rightarrow> exn + pyval" where
  "validate_item (PyDict kvs) =
     (case (map_of kvs ''id'', map_of kvs ''name'') of
        (Some (PyInt i), Some (PyStr s)) \<Rightarrow>
          if 0 < i then Inr (item_instance i s) else Inl (ValidationError ''id'')
      | (_, _) \<Rightarrow> Inl (ValidationError ''Item''))"
| "validate_item (PyObject c fs) =
     (if c = ''Item'' then Inr (PyObject c fs) else Inl (ValidationError ''Item''))"
| "validate_item v = Inl (ValidationError ''Item'')"

definition test_engine :: engine where
  "test_engine ann v =
     (if ann = Optional_Item \<and> v = PyNone then Inr PyNone else validate_item v)"

text \<open>
  A stand-in for the two protocols on the values of the examples: an instance of
  the model \<^verbatim>\<open>Item\<close> iterates as its (field, value) pairs and merges as its
  fields; any other object is not iterable; nothing else is merged.
\<close>

definition py_runtime :: runtime where
  "py_runtime =
     \<lparr>rt_iter = (\<lambda>v. case v of
          PyObject c fs \<Rightarrow>
            if c = ''Item'' then Inr (map (\<lambda>(k, x). PyTuple [PyStr k, x]) fs)
            else Inl (TypeError NotIterable)
        | _ \<Rightarrow> Inl (TypeError NotIterable)),
      rt_update = (\<lambda>kwargs v. case v of
          PyObject c fs \<Rightarrow>
            if c = ''Item'' then Inr (foldl (\<lambda>d (k, x). AList.update k x d) kwargs fs)
            else Inl (TypeError NotIterable)
        | _ \<Rightarrow> Inl (TypeError NotIterable))\<rparr>"

text \<open>The continuation \<^verbatim>\<open>AsyncMock(return_value=True)\<close> of the tests.\<close>

definition returns_true :: continuation where
  "returns_true ctx = Inr (Awaitable (Inr (PyBool True)))"

section \<open>Notions of the specification\<close>

text \<open>
  The words of the specification for the analyzer. A declared type is itself a
  validatable structured type when it is a class and a subclass of the engine's
  base model; its inner type arguments are the elements of its \<^verbatim>\<open>__args__\<close>
  tuple; its inspection raises when the subclass test or the iteration of
  \<^verbatim>\<open>__args__\<close> does.
\<close>

definition is_model :: "annotation \<Rightarrow> bool" where
  "is_model a = (ann_isclass a \<and> ann_issubclass a = Inr True)"

definition inner_types :: "annotation \<Rightarrow> annotation list" where
  "inner_types a = (case ann_args a of Some (Inr xs) \<Rightarrow> xs | _ \<Rightarrow> [])"

definition inspection_raises :: "annotation \<Rightarrow> bool" where
  "inspection_raises a =
     ((ann_isclass a \<and> isl (ann_issubclass a)) \<or>
      (\<not> is_model a \<and> (case ann_args a of Some (Inl e) \<Rightarrow> True | _ \<Rightarrow> False)))"

text \<open>
  The words of the specification for the marker. A call is unmarked when the
  method cannot be resolved on the target type or carries no true flag; otherwise
  \<open>marked_method\<close> is the resolved method.
\<close>

definition unmarked :: "method_ctx \<Rightarrow> bool" where
  "unmarked ctx =
     (case map_of (ctx_cls ctx) (ctx_name ctx) of
        None \<Rightarrow> True
      | Some original_func \<Rightarrow> \<not> validate_meta original_func)"

definition marked_method :: "method_ctx \<Rightarrow> pymethod option" where
  "marked_method ctx =
     (case map_of (ctx_cls ctx) (ctx_name ctx) of
        None \<Rightarrow> None
      | Some original_func \<Rightarrow> if validate_meta original_func then Some original_func else None)"

text \<open>Call contexts of the tests, and a method with two model parameters.\<close>

definition ctx_invalid :: method_ctx where
  "ctx_invalid =
     \<lparr>ctx_cls = TestService, ctx_name = ''simple_method'',
      ctx_args = [service, raw_item (- 5) ''Invalid''], ctx_kwargs = []\<rparr>"


definition ctx_missing_argument :: method_ctx where
  "ctx_missing_argument =
     \<lparr>ctx_cls = TestService, ctx_name = ''simple_method'',
      ctx_args = [service], ctx_kwargs = []\<rparr>"

definition two_items :: pymethod where
  "two_items =
     \<lparr>validate_meta = True,
      method_signature =
        [positional ''self'' None, positional ''first'' (Some Item),
         positional ''second'' (Some Item)]\<rparr>"

definition PairService :: pyclass where
  "PairService = [(''two_items'', two_items)]"

definition ctx_second_invalid :: method_ctx where
  "ctx_second_invalid =
     \<lparr>ctx_cls = PairService, ctx_name = ''two_items'',
      ctx_args = [service, raw_item 1 ''Ok'', raw_item (- 1) ''Bad''], ctx_kwargs = []\<rparr>"

text \<open>More call contexts: the optional parameter bound to \<^verbatim>\<open>None\<close>, and a method
  with an annotated \<^verbatim>\<open>cls\<close> and an unannotated parameter.\<close>

definition ctx_optional_none :: method_ctx where
  "ctx_optional_none =
     \<lparr>ctx_cls = TestService, ctx_name = ''optional_method'',
      ctx_args = [service, PyNone], ctx_kwargs = []\<rparr>"






definition dict_keys :: "arguments \<Rightarrow> string set" where
  "dict_keys al = set (map fst al)"












section \<open>The analyzer: totality and classification\<close>

lemma requires_returns: "\<exists>b. requires_pydantic_validation a = Inr b"
  by (cases "requires_try a") (auto simp: requires_pydantic_validation.simps)

lemma any_requires_eq:
  "any_requires xs = Inr (\<exists>x\<in>set xs. requires_pydantic_validation x = Inr True)"
proof (induction xs)
  case Nil
  show ?case by simp
next
  case (Cons x xs)
  obtain b where b: "requires_pydantic_validation x = Inr b"
    using requires_returns by blast
  show ?case
    using Cons b by (cases b) simp_all
qed

lemma requires_try_unfold:
  "requires_try a =
     (if ann_isclass a \<and> isl (ann_issubclass a) then Inl (projl (ann_issubclass a))
      else if is_model a then Inr True
      else (case ann_args a of
              None \<Rightarrow> Inr False
            | Some (Inl e) \<Rightarrow> Inl e
            | Some (Inr xs) \<Rightarrow> Inr (\<exists>x\<in>set xs. requires_pydantic_validation x = Inr True)))"
  by (cases "ann_issubclass a")
     (simp_all add: requires_try.simps is_model_def any_requires_eq
        split: bool.split option.split sum.split)



text \<open>
  C5, as stated, fails on a wrapper whose inspection raises: the builtin alias
  \<^verbatim>\<open>list[Item]\<close> as CPython 3.9 and 3.10 present it is a parametric wrapper
  whose inner type \<^verbatim>\<open>Item\<close> classifies as validatable, and the analyzer
  classifies the alias as not validatable, because the subclass test raises and
  the \<^verbatim>\<open>except\<close> clause answers \<^verbatim>\<open>False\<close>.
\<close>

theorem classifier_iff_counterexample:
  "ann_args builtin_list_Item = Some (Inr [Item]) \<and>
   requires_pydantic_validation Item = Inr True \<and>
   requires_pydantic_validation builtin_list_Item = Inr False"
  by (simp add: builtin_list_Item_def builtin_alias_def Item_def model_class_def
      requires_pydantic_validation.simps requires_try.simps)

text \<open>
  C5, amended. For every declared type whose inspection raises nothing, the
  analyzer classifies it as validatable if and only if it is itself a validatable
  structured type or at least one of its inner type arguments classifies as
  validatable; a declared type whose inspection raises is classified as not
  validatable.
\<close>

theorem classifier_iff_when_inspectable:
  "(\<not> inspection_raises a \<longrightarrow>
     (requires_pydantic_validation a = Inr True) =
     (is_model a \<or> (\<exists>x\<in>set (inner_types a). requires_pydantic_validation x = Inr True))) \<and>
   (inspection_raises a \<longrightarrow> requires_pydantic_validation a = Inr False)"
proof -
  have unfold: "requires_pydantic_validation a =
      (case requires_try a of Inl e \<Rightarrow> Inr False | Inr b \<Rightarrow> Inr b)"
    by (simp add: requires_pydantic_validation.simps)
  show ?thesis
    unfolding unfold requires_try_unfold inspection_raises_def inner_types_def
    by (auto split: option.split sum.split)
qed

theorem classifier_iff_when_inspectable_witness:
  "\<not> inspection_raises Optional_Item \<and>
   requires_pydantic_validation Optional_Item = Inr True \<and>
   \<not> is_model Optional_Item \<and>
   requires_pydantic_validation (hd (inner_types Optional_Item)) = Inr True \<and>
   inspection_raises builtin_list_Item \<and>
   requires_pydantic_validation builtin_list_Item = Inr False"
  using classifier_iff_when_inspectable [of Optional_Item]
    classifier_iff_when_inspectable [of builtin_list_Item]
  by (simp add: inspection_raises_def is_model_def inner_types_def Optional_Item_def
      generic_alias_def builtin_list_Item_def builtin_alias_def Item_def model_class_def
      plain_class_def requires_pydantic_validation.simps requires_try.simps)

section \<open>Errors of the binder and of the engine\<close>

lemma bind_positional_TypeError:
  "bind_positional sig args kw acc = Inl e \<Longrightarrow> is_TypeError e"
  by (induction sig args kw acc rule: bind_positional.induct)
     (auto simp: is_TypeError_def split: if_splits)

lemma bind_keywords_TypeError:
  "bind_keywords sig kw acc kp = Inl e \<Longrightarrow> is_TypeError e"
  by (induction sig kw acc kp rule: bind_keywords.induct)
     (auto simp: is_TypeError_def split: if_splits option.splits)

lemma bind_TypeError: "bind sig args kw = Inl e \<Longrightarrow> is_TypeError e"
  by (auto simp: bind_def is_TypeError_def split: sum.splits prod.splits if_splits option.splits
      dest: bind_positional_TypeError bind_keywords_TypeError)

lemma bind_with_retry_fail:
  "bind sig args kw = Inl e1 \<Longrightarrow> bind sig (tl args) kw = Inl e2 \<Longrightarrow>
   bind_with_retry sig args kw = Inl e2"
  by (simp add: bind_with_retry_def bind_TypeError)

lemma validate_loop_rejected:
  "validate_loop eng sig items vm = (r, tr) \<Longrightarrow> Validate n ann v \<in> set tr \<Longrightarrow>
   eng ann v = Inl e \<Longrightarrow> r = Inl e"
proof (induction eng sig items vm arbitrary: r tr rule: validate_loop.induct)
  case (1 eng sig vm)
  then show ?case by simp
next
  case (2 eng sig n' val items vm)
  then show ?case
    by (auto split: option.splits if_splits sum.splits bool.splits prod.splits)
qed

lemma validated_arguments_rejected:
  assumes "validated_arguments eng sig args kw = (r, tr)"
    and "Validate n ann v \<in> set tr" and "eng ann v = Inl e"
  shows "r = Inl e"
proof (cases "bind_with_retry sig args kw")
  case (Inl e')
  with assms show ?thesis by (simp add: validated_arguments_def)
next
  case (Inr bound)
  obtain r' tr' where loop:
    "validate_loop eng sig (apply_defaults sig bound) (apply_defaults sig bound) = (r', tr')"
    by (cases "validate_loop eng sig (apply_defaults sig bound) (apply_defaults sig bound)")
  from assms(1) Inr loop have tr: "tr = tr'"
    by (cases r') (simp_all add: validated_arguments_def)
  from validate_loop_rejected [OF loop] assms(2,3) tr have "r' = Inl e" by simp
  with assms(1) Inr loop show ?thesis by (simp add: validated_arguments_def)
qed

lemma validate_and_transform_rejected:
  assumes "validate_and_transform rt eng sig args kw = (r, tr)"
    and "Validate n ann v \<in> set tr" and "eng ann v = Inl e"
  shows "r = Inl e"
proof -
  obtain r' tr' where va: "validated_arguments eng sig args kw = (r', tr')"
    by (cases "validated_arguments eng sig args kw")
  from assms(1) va have tr: "tr = tr'"
    by (cases r') (auto simp: validate_and_transform_def split: sum.splits)
  from validated_arguments_rejected [OF va] assms(2,3) tr have "r' = Inl e" by simp
  with assms(1) va show ?thesis by (simp add: validate_and_transform_def)
qed

lemma invoke_unmarked:
  "unmarked ctx \<Longrightarrow>
   invoke rt eng call_next ctx =
     \<lparr>outcome = call_next_async call_next ctx, final_ctx = ctx, trace = [], forwarded = [ctx]\<rparr>"
  by (simp add: unmarked_def invoke_def split: option.splits)

lemma invoke_marked_raises:
  assumes "marked_method ctx = Some f"
    and "validate_and_transform rt eng (method_signature f) (ctx_args ctx) (ctx_kwargs ctx)
           = (Inl e, tr)"
  shows "invoke rt eng call_next ctx =
     \<lparr>outcome = (case e of ValidationError d \<Rightarrow> Inl (ValidationFailedError (ctx_name ctx) e)
                   | _ \<Rightarrow> Inl e),
      final_ctx = ctx, trace = tr, forwarded = []\<rparr>"
  using assms
  by (cases e) (auto simp: marked_method_def invoke_def split: option.splits if_splits)

lemma invoke_trace_marked:
  assumes "ev \<in> set (trace (invoke rt eng call_next ctx))"
  obtains f where "marked_method ctx = Some f"
    and "trace (invoke rt eng call_next ctx) =
       snd (validate_and_transform rt eng (method_signature f) (ctx_args ctx) (ctx_kwargs ctx))"
proof (cases "marked_method ctx")
  case None
  then have "unmarked ctx"
    by (auto simp: marked_method_def unmarked_def split: option.splits if_splits)
  from invoke_unmarked [OF this] assms show ?thesis by simp
next
  case (Some f)
  then have "trace (invoke rt eng call_next ctx) =
       snd (validate_and_transform rt eng (method_signature f) (ctx_args ctx) (ctx_kwargs ctx))"
    by (auto simp: marked_method_def invoke_def Let_def
        split: option.splits if_splits prod.splits sum.splits exn.splits)
  with Some that show ?thesis by blast
qed

lemma invoke_rejected:
  assumes "Validate n ann v \<in> set (trace (invoke rt eng call_next ctx))"
    and "eng ann v = Inl e"
  shows "invoke rt eng call_next ctx =
     \<lparr>outcome = (case e of ValidationError d \<Rightarrow> Inl (ValidationFailedError (ctx_name ctx) e)
                   | _ \<Rightarrow> Inl e),
      final_ctx = ctx, trace = trace (invoke rt eng call_next ctx), forwarded = []\<rparr>"
proof -
  from assms(1) obtain f where f: "marked_method ctx = Some f"
    and tr: "trace (invoke rt eng call_next ctx) =
       snd (validate_and_transform rt eng (method_signature f) (ctx_args ctx) (ctx_kwargs ctx))"
    by (rule invoke_trace_marked)
  obtain r t where vt:
    "validate_and_transform rt eng (method_signature f) (ctx_args ctx) (ctx_kwargs ctx) = (r, t)"
    by (cases "validate_and_transform rt eng (method_signature f) (ctx_args ctx) (ctx_kwargs ctx)")
  from validate_and_transform_rejected [OF vt] assms tr vt have "r = Inl e" by simp
  with vt invoke_marked_raises [OF f, of rt eng e t call_next] tr show ?thesis by simp
qed

text \<open>
  C3. Whenever the validation engine rejects the raw value of some parameter of a
  call, the call raises the single wrapped error carrying the method name and the
  engine's error as its cause, and the continuation is never invoked: the error
  is raised before the continuation would run.
\<close>

theorem validation_failure_wrapped:
  assumes "Validate n ann v \<in> set (trace (invoke rt eng call_next ctx))"
    and "eng ann v = Inl (ValidationError d)"
  shows "outcome (invoke rt eng call_next ctx) =
           Inl (ValidationFailedError (ctx_name ctx) (ValidationError d)) \<and>
         forwarded (invoke rt eng call_next ctx) = []"
proof -
  from invoke_rejected [OF assms]
  have eq: "invoke rt eng call_next ctx =
     \<lparr>outcome = Inl (ValidationFailedError (ctx_name ctx) (ValidationError d)),
      final_ctx = ctx, trace = trace (invoke rt eng call_next ctx), forwarded = []\<rparr>"
    by simp
  show ?thesis by (subst eq, simp, subst eq, simp)
qed

text \<open>
  C9. Transformation is all or nothing on the call context: when the engine fails
  on any parameter, the context is left exactly as it was, also for the
  parameters validated before the failing one, and nothing is forwarded.
\<close>

theorem failed_validation_leaves_ctx:
  assumes "Validate n ann v \<in> set (trace (invoke rt eng call_next ctx))"
    and "eng ann v = Inl e"
  shows "final_ctx (invoke rt eng call_next ctx) = ctx \<and>
         forwarded (invoke rt eng call_next ctx) = []"
proof -
  note eq = invoke_rejected [OF assms]
  show ?thesis by (subst eq, simp, subst eq, simp)
qed


text \<open>
  C7. When both binding attempts fail for a marked method, the error of the
  second attempt propagates as it is: it is a \<open>TypeError\<close>, not the wrapped
  validation failure; the continuation is not invoked and the context is unchanged.
\<close>

theorem binding_error_unwrapped:
  assumes "marked_method ctx = Some f"
    and "bind (method_signature f) (ctx_args ctx) (ctx_kwargs ctx) = Inl e1"
    and "bind (method_signature f) (tl (ctx_args ctx)) (ctx_kwargs ctx) = Inl e2"
  shows "outcome (invoke rt eng call_next ctx) = Inl e2 \<and> is_TypeError e2 \<and>
         forwarded (invoke rt eng call_next ctx) = [] \<and>
         final_ctx (invoke rt eng call_next ctx) = ctx"
proof -
  have ty: "is_TypeError e2" using assms(3) by (rule bind_TypeError)
  have "validate_and_transform rt eng (method_signature f) (ctx_args ctx) (ctx_kwargs ctx)
          = (Inl e2, [])"
    using bind_with_retry_fail [OF assms(2,3)]
    by (simp add: validate_and_transform_def validated_arguments_def)
  from invoke_marked_raises [OF assms(1) this, of call_next] ty
  show ?thesis by (cases e2) (simp_all add: is_TypeError_def)
qed

theorem validation_failure_wrapped_witness:
  "Validate ''item'' Item (raw_item (- 5) ''Invalid'')
     \<in> set (trace (invoke py_runtime test_engine returns_true ctx_invalid)) \<and>
   test_engine Item (raw_item (- 5) ''Invalid'') = Inl (ValidationError ''id'') \<and>
   outcome (invoke py_runtime test_engine returns_true ctx_invalid) =
     Inl (ValidationFailedError ''simple_method'' (ValidationError ''id'')) \<and>
   forwarded (invoke py_runtime test_engine returns_true ctx_invalid) = []"
proof -
  have h1: "Validate ''item'' Item (raw_item (- 5) ''Invalid'')
     \<in> set (trace (invoke py_runtime test_engine returns_true ctx_invalid))"
    by code_simp
  have h2: "test_engine Item (raw_item (- 5) ''Invalid'') = Inl (ValidationError ''id'')"
    by code_simp
  from validation_failure_wrapped [OF h1 h2] h1 h2 show ?thesis
    by (simp add: ctx_invalid_def)
qed

theorem failed_validation_leaves_ctx_witness:
  "Validate ''first'' Item (raw_item 1 ''Ok'')
     \<in> set (trace (invoke py_runtime test_engine returns_true ctx_second_invalid)) \<and>
   test_engine Item (raw_item 1 ''Ok'') = Inr (item_instance 1 ''Ok'') \<and>
   Validate ''second'' Item (raw_item (- 1) ''Bad'')
     \<in> set (trace (invoke py_runtime test_engine returns_true ctx_second_invalid)) \<and>
   test_engine Item (raw_item (- 1) ''Bad'') = Inl (ValidationError ''id'') \<and>
   final_ctx (invoke py_runtime test_engine returns_true ctx_second_invalid) = ctx_second_invalid \<and>
   forwarded (invoke py_runtime test_engine returns_true ctx_second_invalid) = []"
proof -
  have h0: "Validate ''first'' Item (raw_item 1 ''Ok'')
     \<in> set (trace (invoke py_runtime test_engine returns_true ctx_second_invalid))"
    by code_simp
  have h0': "test_engine Item (raw_item 1 ''Ok'') = Inr (item_instance 1 ''Ok'')"
    by code_simp
  have h1: "Validate ''second'' Item (raw_item (- 1) ''Bad'')
     \<in> set (trace (invoke py_runtime test_engine returns_true ctx_second_invalid))"
    by code_simp
  have h2: "test_engine Item (raw_item (- 1) ''Bad'') = Inl (ValidationError ''id'')"
    by code_simp
  from failed_validation_leaves_ctx [OF h1 h2] h0 h0' h1 h2 show ?thesis
    by simp
qed


theorem binding_error_unwrapped_witness:
  "marked_method ctx_missing_argument = Some simple_method \<and>
   bind (method_signature simple_method) (ctx_args ctx_missing_argument)
     (ctx_kwargs ctx_missing_argument) = Inl (TypeError (MissingRequired ''item'')) \<and>
   bind (method_signature simple_method) (tl (ctx_args ctx_missing_argument))
     (ctx_kwargs ctx_missing_argument) = Inl (TypeError (MissingRequired ''self'')) \<and>
   outcome (invoke py_runtime test_engine returns_true ctx_missing_argument)
     = Inl (TypeError (MissingRequired ''self'')) \<and>
   forwarded (invoke py_runtime test_engine returns_true ctx_missing_argument) = [] \<and>
   final_ctx (invoke py_runtime test_engine returns_true ctx_missing_argument) = ctx_missing_argument"
proof -
  have h1: "marked_method ctx_missing_argument = Some simple_method" by code_simp
  have h2: "bind (method_signature simple_method) (ctx_args ctx_missing_argument)
     (ctx_kwargs ctx_missing_argument) = Inl (TypeError (MissingRequired ''item''))"
    by code_simp
  have h3: "bind (method_signature simple_method) (tl (ctx_args ctx_missing_argument))
     (ctx_kwargs ctx_missing_argument) = Inl (TypeError (MissingRequired ''self''))"
    by code_simp
  from binding_error_unwrapped [OF h1 h2 h3, of py_runtime test_engine returns_true] h1 h2 h3
  show ?thesis by simp
qed

section \<open>The per-parameter loop\<close>

lemma validate_loop_events:
  "validate_loop eng sig items vm = (r, tr) \<Longrightarrow> ev \<in> set tr \<Longrightarrow>
   event_param ev \<in> fst ` set items \<and> event_param ev \<noteq> ''self'' \<and>
   event_param ev \<noteq> ''cls'' \<and>
   (\<exists>p ann. lookup_param sig (event_param ev) = Some p \<and> param_annotation p = Some ann)"
proof (induction items arbitrary: vm r tr)
  case Nil
  then show ?case by simp
next
  case (Cons item items)
  obtain n val where item: "item = (n, val)" by (cases item)
  from Cons.prems show ?case
    unfolding item
    by (auto split: option.splits if_splits sum.splits bool.splits prod.splits
        dest!: Cons.IH)
qed

lemma validate_loop_keeps:
  "validate_loop eng sig items vm = (Inr m, tr) \<Longrightarrow>
   \<forall>ev\<in>set tr. event_param ev \<noteq> n \<Longrightarrow> map_of m n = map_of vm n"
proof (induction items arbitrary: vm m tr)
  case Nil
  then show ?case by simp
next
  case (Cons item items)
  obtain n' val where item: "item = (n', val)" by (cases item)
  from Cons.prems show ?case
    unfolding item
    by (auto simp: update_conv' split: option.splits if_splits sum.splits bool.splits prod.splits
        dest!: Cons.IH)
qed

lemma validate_loop_distinct:
  "validate_loop eng sig items vm = (Inr m, tr) \<Longrightarrow> distinct (map fst vm) \<Longrightarrow>
   distinct (map fst m)"
proof (induction items arbitrary: vm m tr)
  case Nil
  then show ?case by simp
next
  case (Cons item items)
  obtain n' val where item: "item = (n', val)" by (cases item)
  from Cons.prems show ?case
    unfolding item
    by (auto simp: distinct_update split: option.splits if_splits sum.splits bool.splits prod.splits
        dest!: Cons.IH)
qed

lemma foldl_update_map_of:
  "distinct (map fst m) \<Longrightarrow>
   map_of (foldl (\<lambda>d (k, v). AList.update k v d) d m) n =
     (case map_of m n of Some v \<Rightarrow> Some v | None \<Rightarrow> map_of d n)"
proof (induction m arbitrary: d)
  case Nil
  then show ?case by simp
next
  case (Cons kv m)
  obtain k v where kv: "kv = (k, v)" by (cases kv)
  from Cons.prems kv have notin: "map_of m k = None"
    by (simp add: map_of_eq_None_iff)
  from Cons kv notin show ?case
    by (auto simp: update_conv' split: option.splits)
qed

lemma dict_of_distinct: "distinct (map fst (dict_of pairs))"
proof -
  have "distinct (map fst d) \<Longrightarrow>
      distinct (map fst (foldl (\<lambda>d (k, v). AList.update k v d) d pairs))" for d
    by (induction pairs arbitrary: d) (auto simp: distinct_update)
  then show ?thesis by (simp add: dict_of_def)
qed

lemma apply_defaults_distinct: "distinct (map fst (apply_defaults sig b))"
  by (simp add: apply_defaults_def dict_of_distinct)

lemma validate_loop_step:
  assumes "validate_loop eng sig ((n, val) # items) vm = (Inr m, tr)"
  shows "\<exists>vm' tr'. validate_loop eng sig items vm' = (Inr m, tr') \<and> set tr' \<subseteq> set tr \<and>
           (vm' = vm \<or> (\<exists>v'. vm' = AList.update n v' vm))"
proof (cases "lookup_param sig n")
  case None
  with assms show ?thesis by simp
next
  case (Some p)
  show ?thesis
  proof (cases "n = ''self'' \<or> n = ''cls'' \<or> param_annotation p = None")
    case True
    with assms Some have "validate_loop eng sig items vm = (Inr m, tr)"
      by (auto split: option.splits)
    then show ?thesis by blast
  next
    case False
    then obtain ann where ann: "param_annotation p = Some ann" by auto
    obtain b where b: "requires_pydantic_validation ann = Inr b"
      using requires_returns by blast
    show ?thesis
    proof (cases b)
      case True
      with assms Some False ann b obtain v' tr' where
        "validate_loop eng sig items (AList.update n v' vm) = (Inr m, tr')"
        "tr = Classify n ann # Validate n ann val # tr'"
        by (auto split: sum.splits prod.splits)
      then show ?thesis
        by (intro exI [of _ "AList.update n v' vm"] exI [of _ tr']) auto
    next
      case False
      with assms Some \<open>\<not> (n = ''self'' \<or> n = ''cls'' \<or> param_annotation p = None)\<close>
        ann b obtain tr' where
        "validate_loop eng sig items vm = (Inr m, tr')" "tr = Classify n ann # tr'"
        by (auto split: prod.splits)
      then show ?thesis by (intro exI [of _ vm] exI [of _ tr']) auto
    qed
  qed
qed

lemma validate_loop_validates:
  "validate_loop eng sig items vm = (Inr m, tr) \<Longrightarrow> distinct (map fst items) \<Longrightarrow>
   (n, v) \<in> set items \<Longrightarrow> n \<noteq> ''self'' \<Longrightarrow> n \<noteq> ''cls'' \<Longrightarrow>
   lookup_param sig n = Some p \<Longrightarrow> param_annotation p = Some ann \<Longrightarrow>
   requires_pydantic_validation ann = Inr True \<Longrightarrow>
   Validate n ann v \<in> set tr \<and> (\<exists>v'. eng ann v = Inr v' \<and> map_of m n = Some v')"
proof (induction items arbitrary: vm m tr)
  case Nil
  then show ?case by simp
next
  case (Cons item items)
  obtain n' val where item: "item = (n', val)" by (cases item)
  show ?case
  proof (cases "n' = n")
    case True
    with Cons.prems(2,3) item have val: "val = v"
      by (auto simp: image_iff)
    from Cons.prems(2) item True have notin: "n \<notin> fst ` set items" by simp
    from Cons.prems(1) item True val Cons.prems(4-8)
    obtain v' tr' where e: "eng ann v = Inr v'"
      and loop: "validate_loop eng sig items (AList.update n v' vm) = (Inr m, tr')"
      and tr: "tr = Classify n ann # Validate n ann v # tr'"
      by (auto split: sum.splits prod.splits)
    have "\<forall>ev\<in>set tr'. event_param ev \<noteq> n"
      using validate_loop_events [OF loop] notin by blast
    from validate_loop_keeps [OF loop this] have "map_of m n = Some v'"
      by (simp add: update_conv')
    with e tr show ?thesis by simp
  next
    case False
    with Cons.prems(3) item have mem: "(n, v) \<in> set items" by simp
    from Cons.prems(2) have dist: "distinct (map fst items)" by simp
    from validate_loop_step [OF Cons.prems(1) [unfolded item]] obtain vm' tr' where
      loop: "validate_loop eng sig items vm' = (Inr m, tr')" and sub: "set tr' \<subseteq> set tr"
      by blast
    from Cons.IH [OF loop dist mem Cons.prems(4-8)] sub show ?thesis by blast
  qed
qed

lemma validated_arguments_success:
  assumes "validated_arguments eng sig args kw = (Inr m, tr)"
  obtains b vm where "bind_with_retry sig args kw = Inr b"
    and "validate_loop eng sig (apply_defaults sig b) (apply_defaults sig b) = (Inr vm, tr)"
    and "m = foldl (\<lambda>d (k, v). AList.update k v d) (apply_defaults sig b) vm"
  using assms
  by (auto simp: validated_arguments_def Let_def split: sum.splits prod.splits)



lemma validate_and_transform_trace:
  "snd (validate_and_transform rt eng sig args kw) = snd (validated_arguments eng sig args kw)"
  by (auto simp: validate_and_transform_def split: sum.splits prod.splits)

lemma invoke_trace:
  "marked_method ctx = Some f \<Longrightarrow>
   trace (invoke rt eng call_next ctx) =
     snd (validated_arguments eng (method_signature f) (ctx_args ctx) (ctx_kwargs ctx))"
  unfolding validate_and_transform_trace [where rt = rt, symmetric]
  by (auto simp: marked_method_def invoke_def Let_def
      split: option.splits if_splits prod.splits sum.splits exn.splits)



text \<open>
  C1, as stated, fails: for \<^verbatim>\<open>optional_method(self, item: Optional[Item] = None)\<close>
  called with \<^verbatim>\<open>None\<close>, the engine is invoked for \<^verbatim>\<open>item\<close>, with the declared type
  \<^verbatim>\<open>Optional[Item]\<close> and the value \<^verbatim>\<open>None\<close>: the interceptor has no test for
  \<^verbatim>\<open>None\<close>.
\<close>

theorem none_reaches_engine_counterexample:
  "marked_method ctx_optional_none = Some optional_method \<and>
   lookup_param (method_signature optional_method) ''item'' =
     Some ((positional ''item'' (Some Optional_Item))\<lparr>param_default := Some PyNone\<rparr>) \<and>
   ctx_args ctx_optional_none = [service, PyNone] \<and>
   Validate ''item'' Optional_Item PyNone
     \<in> set (trace (invoke py_runtime test_engine returns_true ctx_optional_none))"
  by code_simp

text \<open>
  C1, amended. For a marked method and a parameter whose declared type the
  analyzer classifies as validatable (an optional-wrapped model in particular),
  when the value bound to the parameter is \<^verbatim>\<open>None\<close> and processing succeeds, the
  engine has been invoked for that parameter with the declared type and
  \<^verbatim>\<open>None\<close>, it has accepted, and the parameter's value is what the engine
  returned: \<^verbatim>\<open>None\<close> when the engine maps \<^verbatim>\<open>None\<close> to \<^verbatim>\<open>None\<close>.
\<close>

theorem none_reaches_engine:
  assumes "marked_method ctx = Some f"
    and "lookup_param (method_signature f) n = Some p"
    and "n \<noteq> ''self''" and "n \<noteq> ''cls''"
    and "param_annotation p = Some ann"
    and "requires_pydantic_validation ann = Inr True"
    and "bind_with_retry (method_signature f) (ctx_args ctx) (ctx_kwargs ctx) = Inr b"
    and "map_of (apply_defaults (method_signature f) b) n = Some PyNone"
    and "validated_arguments eng (method_signature f) (ctx_args ctx) (ctx_kwargs ctx)
           = (Inr m, tr)"
  shows "Validate n ann PyNone \<in> set (trace (invoke rt eng call_next ctx)) \<and>
         (\<exists>v'. eng ann PyNone = Inr v' \<and> map_of m n = Some v')"
proof -
  let ?sig = "method_signature f"
  let ?d = "apply_defaults ?sig b"
  from validated_arguments_success [OF assms(9)] assms(7) obtain vm where
    loop: "validate_loop eng ?sig ?d ?d = (Inr vm, tr)"
    and m: "m = foldl (\<lambda>d (k, v). AList.update k v d) ?d vm"
    by auto
  have mem: "(n, PyNone) \<in> set ?d" using assms(8) by (rule map_of_SomeD)
  from validate_loop_validates [OF loop apply_defaults_distinct mem assms(3,4,2,5,6)]
  obtain v' where ev: "Validate n ann PyNone \<in> set tr"
    and e: "eng ann PyNone = Inr v'" and vm: "map_of vm n = Some v'"
    by blast
  have "distinct (map fst vm)"
    using validate_loop_distinct [OF loop] apply_defaults_distinct by blast
  from foldl_update_map_of [OF this, of ?d n] vm m have "map_of m n = Some v'" by simp
  moreover have "trace (invoke rt eng call_next ctx) = tr"
    using invoke_trace [OF assms(1), of rt eng call_next] assms(9) by simp
  ultimately show ?thesis using ev e by simp
qed

theorem none_reaches_engine_witness:
  "marked_method ctx_optional_none = Some optional_method \<and>
   requires_pydantic_validation Optional_Item = Inr True \<and>
   bind_with_retry (method_signature optional_method) (ctx_args ctx_optional_none)
     (ctx_kwargs ctx_optional_none) = Inr [(''self'', service), (''item'', PyNone)] \<and>
   validated_arguments test_engine (method_signature optional_method)
     (ctx_args ctx_optional_none) (ctx_kwargs ctx_optional_none) =
     (Inr [(''self'', service), (''item'', PyNone)],
      [Classify ''item'' Optional_Item, Validate ''item'' Optional_Item PyNone]) \<and>
   Validate ''item'' Optional_Item PyNone
     \<in> set (trace (invoke py_runtime test_engine returns_true ctx_optional_none)) \<and>
   test_engine Optional_Item PyNone = Inr PyNone"
proof -
  have h1: "marked_method ctx_optional_none = Some optional_method" by code_simp
  have h2: "lookup_param (method_signature optional_method) ''item'' =
     Some ((positional ''item'' (Some Optional_Item))\<lparr>param_default := Some PyNone\<rparr>)"
    by code_simp
  have h3: "''item'' \<noteq> ''self''" and h4: "''item'' \<noteq> ''cls''" by simp_all
  have h5: "param_annotation
      ((positional ''item'' (Some Optional_Item))\<lparr>param_default := Some PyNone\<rparr>)
      = Some Optional_Item" by (simp add: positional_def)
  have h6: "requires_pydantic_validation Optional_Item = Inr True" by code_simp
  have h7: "bind_with_retry (method_signature optional_method) (ctx_args ctx_optional_none)
     (ctx_kwargs ctx_optional_none) = Inr [(''self'', service), (''item'', PyNone)]"
    by code_simp
  have h8: "map_of (apply_defaults (method_signature optional_method)
      [(''self'', service), (''item'', PyNone)]) ''item'' = Some PyNone" by code_simp
  have h9: "validated_arguments test_engine (method_signature optional_method)
     (ctx_args ctx_optional_none) (ctx_kwargs ctx_optional_none) =
     (Inr [(''self'', service), (''item'', PyNone)],
      [Classify ''item'' Optional_Item, Validate ''item'' Optional_Item PyNone])"
    by code_simp
  from none_reaches_engine [OF h1 h2 h3 h4 h5 h6 h7 h8 h9, of py_runtime returns_true] h1 h6 h7 h9
  show ?thesis by auto
qed

section \<open>Binding with and without the receiver\<close>






section \<open>The canonical bound form\<close>

lemma dict_keys_update [simp]:
  "dict_keys (AList.update k v al) = insert k (dict_keys al)"
  by (simp add: dict_keys_def dom_update)

lemma dict_keys_Nil [simp]: "dict_keys [] = {}"
  by (simp add: dict_keys_def)

lemma dict_keys_Cons [simp]: "dict_keys ((k, v) # al) = insert k (dict_keys al)"
  by (simp add: dict_keys_def)





























end
